theory Spec2Isabelle
  imports Main "HOL-Library.AList"
begin

section \<open>Strings\<close>

text \<open>
  The extension is TypeScript. Its strings are held here as \<^typ>\<open>string\<close>, a literal of
  the source being the bytes of its UTF-8 text. The code only tests strings for being
  empty, concatenates them and uses them as keys, and these three operations do not
  depend on the encoding.

  \<^verbatim>\<open>x || ''\<close> and \<^verbatim>\<open>if (x)\<close> on a string test JavaScript truthiness: a string is
  truthy when it is not empty.
\<close>

definition truthy :: "string \<Rightarrow> bool" where
  "truthy s = (s \<noteq> [])"

text \<open>\<^verbatim>\<open>note || ''\<close>, where \<^verbatim>\<open>note\<close> is a string or \<^verbatim>\<open>undefined\<close>.\<close>

definition or_empty :: "string option \<Rightarrow> string" where
  "or_empty x = (case x of None \<Rightarrow> [] | Some s \<Rightarrow> if truthy s then s else [])"

section \<open>Data model\<close>

text \<open>
  The extension's entry point \<^verbatim>\<open>activate\<close> registers \<^verbatim>\<open>FileDecorationsProvider\<close> and the
  two commands, which all work on the module's map \<^verbatim>\<open>fileMarks\<close>; this development follows
  them. The repository also holds an earlier store and provider (\<^verbatim>\<open>MarkManager\<close>,
  \<^verbatim>\<open>MarkDecorationProvider\<close>), with labels in place of kinds and no timestamp, which
  \<^verbatim>\<open>activate\<close> never creates.
\<close>

text \<open>\<^verbatim>\<open>enum FileMarkType { READ = 'read', PARTIAL = 'partial', UNREAD = 'unread' }\<close>\<close>

datatype FileMarkType = READ | PARTIAL | UNREAD

text \<open>\<^verbatim>\<open>interface FileMark { type; note; timestamp }\<close>. The timestamp is what
  \<^verbatim>\<open>Date.now()\<close> returned: a whole number of milliseconds.\<close>

record FileMark =
  type :: FileMarkType
  "note" :: string
  timestamp :: int

text \<open>
  \<^verbatim>\<open>let fileMarks: Map<string, FileMark> = new Map()\<close>. A JavaScript \<^verbatim>\<open>Map\<close> keeps its
  entries in insertion order, and \<^verbatim>\<open>keys()\<close> and \<^verbatim>\<open>forEach\<close> follow that order, so the
  map is an association list: \<^verbatim>\<open>set\<close> replaces the value of a key where it stands and
  appends a new key, \<^verbatim>\<open>delete\<close> removes the key.
\<close>

type_synonym 'v Map = "(string \<times> 'v) list"

definition Map_get :: "'v Map \<Rightarrow> string \<Rightarrow> 'v option" where
  "Map_get m k = map_of m k"

definition Map_has :: "'v Map \<Rightarrow> string \<Rightarrow> bool" where
  "Map_has m k = (map_of m k \<noteq> None)"

definition Map_set :: "'v Map \<Rightarrow> string \<Rightarrow> 'v \<Rightarrow> 'v Map" where
  "Map_set m k v = AList.update k v m"

definition Map_delete :: "'v Map \<Rightarrow> string \<Rightarrow> 'v Map" where
  "Map_delete m k = AList.delete k m"

definition Map_keys :: "'v Map \<Rightarrow> string list" where
  "Map_keys m = map fst m"

text \<open>A \<^verbatim>\<open>vscode.Uri\<close>, known to this code only through \<^verbatim>\<open>fsPath\<close> and
  \<^verbatim>\<open>Uri.file\<close>.\<close>

datatype uri = Uri (fsPath: string)

definition Uri_file :: "string \<Rightarrow> uri" where
  "Uri_file p = Uri p"

datatype ThemeColor = ThemeColor string

text \<open>\<^verbatim>\<open>vscode.FileDecoration\<close>, with the three fields the provider fills.\<close>

record FileDecoration =
  badge :: string
  tooltip :: string
  color :: "ThemeColor option"

section \<open>Plain objects and the persisted JSON\<close>

text \<open>
  \<^verbatim>\<open>saveMarks\<close> copies the map into a plain object \<^verbatim>\<open>data\<close> and writes
  \<^verbatim>\<open>JSON.stringify(data, null, 2)\<close>; \<^verbatim>\<open>loadMarks\<close> reads the text back with
  \<^verbatim>\<open>JSON.parse\<close> and walks \<^verbatim>\<open>Object.entries(parsed)\<close>. A plain object is the list of
  its own enumerable properties in creation order.

  \<^item> \<^verbatim>\<open>data[key] = value\<close> on an object created by \<^verbatim>\<open>{}\<close> creates or overwrites the own
    property \<^verbatim>\<open>key\<close>, except for the key \<^verbatim>\<open>__proto__\<close>: that assignment reaches the
    accessor of \<^verbatim>\<open>Object.prototype\<close>, which replaces the prototype of \<^verbatim>\<open>data\<close> by the
    value and creates no own property.
  \<^item> \<^verbatim>\<open>JSON.parse\<close> defines every member of the text as an own property, \<^verbatim>\<open>__proto__\<close>
    included.
  \<^item> \<^verbatim>\<open>JSON.stringify\<close> and \<^verbatim>\<open>Object.entries\<close> enumerate own properties with the array
    indices first, in ascending numeric order, then the other keys in creation order.
\<close>

type_synonym 'v object = "(string \<times> 'v) list"

definition obj_assign :: "'v object \<Rightarrow> string \<Rightarrow> 'v \<Rightarrow> 'v object" where
  "obj_assign obj key v = (if key = ''__proto__'' then obj else AList.update key v obj)"

definition obj_define :: "'v object \<Rightarrow> string \<Rightarrow> 'v \<Rightarrow> 'v object" where
  "obj_define obj key v = AList.update key v obj"

definition is_digit :: "char \<Rightarrow> bool" where
  "is_digit c = (c \<in> set ''0123456789'')"

definition decimal :: "string \<Rightarrow> nat" where
  "decimal s = fold (\<lambda>c n. 10 * n + (of_char c - 48)) s 0"

text \<open>An array index is the canonical decimal text of an integer from 0 to
  \<open>2\<^sup>3\<^sup>2 - 2\<close>.\<close>

definition is_array_index :: "string \<Rightarrow> bool" where
  "is_array_index s =
     (s \<noteq> [] \<and> list_all is_digit s \<and> (s = ''0'' \<or> hd s \<noteq> CHR ''0'')
      \<and> decimal s < 2 ^ 32 - 1)"

definition Object_entries :: "'v object \<Rightarrow> (string \<times> 'v) list" where
  "Object_entries obj =
     sort_key (\<lambda>p. decimal (fst p)) (filter (\<lambda>p. is_array_index (fst p)) obj)
     @ filter (\<lambda>p. \<not> is_array_index (fst p)) obj"

text \<open>
  The text of a file. \<open>JsonObject ms\<close> is the JSON text of an object whose members are,
  in the order of the text, the keys of \<open>ms\<close>, each with the three fields of a
  \<^verbatim>\<open>FileMark\<close>: what \<^verbatim>\<open>saveMarks\<close> writes. \<open>Malformed e\<close> is a text on which
  \<^verbatim>\<open>JSON.parse\<close> throws the error \<open>e\<close>. \<^verbatim>\<open>loadMarks\<close> casts what it parsed to
  \<^verbatim>\<open>FileMark\<close> without a check; JSON texts of another shape are outside this model.
\<close>

datatype content = JsonObject "(string \<times> FileMark) list" | Malformed string

definition JSON_stringify :: "FileMark object \<Rightarrow> content" where
  "JSON_stringify data = JsonObject (Object_entries data)"

definition JSON_parse :: "content \<Rightarrow> string + FileMark object" where
  "JSON_parse c =
     (case c of
        JsonObject ms \<Rightarrow> Inr (fold (\<lambda>(key, v) obj. obj_define obj key v) ms [])
      | Malformed e \<Rightarrow> Inl e)"

section \<open>The extension's state and its effects\<close>

text \<open>An event of \<^verbatim>\<open>_onDidChangeFileDecorations\<close> carries one URI or an array of URIs.\<close>

datatype payload = One uri | Many "uri list"

datatype message = ErrorMessage string | WarningMessage string

text \<open>
  The module's globals (\<^verbatim>\<open>fileMarks\<close>, \<^verbatim>\<open>storageFile\<close>), the file system it reads and
  writes, and what it has done to the host so far: the events fired, the messages shown
  (\<^verbatim>\<open>showErrorMessage\<close>, \<^verbatim>\<open>showWarningMessage\<close>) and the calls of
  \<^verbatim>\<open>fs.writeFileSync\<close>, each log in the order of the calls. \<open>write_error\<close> and
  \<open>read_error\<close> give, for a path, the error that writing or reading it throws.
\<close>

record world =
  fileMarks :: "FileMark Map"
  storageFile :: "string option"
  disk :: "string \<rightharpoonup> content"
  write_error :: "string \<rightharpoonup> string"
  read_error :: "string \<rightharpoonup> string"
  fired :: "payload list"
  messages :: "message list"
  writes :: "(string \<times> content) list"

definition fire :: "payload \<Rightarrow> world \<Rightarrow> world" where
  "fire p w = w\<lparr>fired := fired w @ [p]\<rparr>"

definition showErrorMessage :: "string \<Rightarrow> world \<Rightarrow> world" where
  "showErrorMessage s w = w\<lparr>messages := messages w @ [ErrorMessage s]\<rparr>"

definition showWarningMessage :: "string \<Rightarrow> world \<Rightarrow> world" where
  "showWarningMessage s w = w\<lparr>messages := messages w @ [WarningMessage s]\<rparr>"

text \<open>\<^verbatim>\<open>fs.writeFileSync(f, c)\<close>: returns the error thrown, if any, and the world after
  the call. Every call is logged, failed or not. A call that throws is taken to leave
  the file as it was; nothing below is stated about the file after a failed write.\<close>

definition writeFileSync :: "string \<Rightarrow> content \<Rightarrow> world \<Rightarrow> string option \<times> world" where
  "writeFileSync f c w =
     (let w' = w\<lparr>writes := writes w @ [(f, c)]\<rparr>
      in case write_error w f of
           Some e \<Rightarrow> (Some e, w')
         | None \<Rightarrow> (None, w'\<lparr>disk := (disk w)(f \<mapsto> c)\<rparr>))"

definition existsSync :: "string \<Rightarrow> world \<Rightarrow> bool" where
  "existsSync f w = (disk w f \<noteq> None)"

text \<open>\<^verbatim>\<open>fs.readFileSync(f, 'utf-8')\<close>: the error thrown or the text read. Reading a
  file that does not exist throws; \<^verbatim>\<open>loadMarks\<close> tests \<^verbatim>\<open>existsSync\<close> first and never
  does.\<close>

definition readFileSync :: "string \<Rightarrow> world \<Rightarrow> string + content" where
  "readFileSync f w =
     (case read_error w f of
        Some e \<Rightarrow> Inl e
      | None \<Rightarrow>
          (case disk w f of
             None \<Rightarrow> Inl (''Error: ENOENT: no such file or directory, open '' @ f)
           | Some c \<Rightarrow> Inr c))"

section \<open>String literals of the source\<close>

text \<open>The literals that are not ASCII, as the bytes of their UTF-8 text; the code points
  are given with each.\<close>

text \<open>U+2705: the badge of a read file.\<close>

definition badge_read :: string where
  "badge_read =
     [CHR 0xE2, CHR 0x9C, CHR 0x85]"

text \<open>U+1F7E0: the badge of a partially read file.\<close>

definition badge_partial :: string where
  "badge_partial =
     [CHR 0xF0, CHR 0x9F, CHR 0x9F, CHR 0xA0]"

text \<open>U+2757: the badge of an unread file.\<close>

definition badge_unread :: string where
  "badge_unread =
     [CHR 0xE2, CHR 0x9D, CHR 0x97]"

text \<open>U+5DF2 U+8BFB: the tooltip of a read file ("read").\<close>

definition tooltip_read :: string where
  "tooltip_read =
     [CHR 0xE5, CHR 0xB7, CHR 0xB2, CHR 0xE8, CHR 0xAF, CHR 0xBB]"

text \<open>U+90E8 U+5206 U+9605 U+8BFB: the tooltip of a partially read file ("partially read").\<close>

definition tooltip_partial :: string where
  "tooltip_partial =
     [CHR 0xE9, CHR 0x83, CHR 0xA8, CHR 0xE5, CHR 0x88, CHR 0x86, CHR 0xE9, CHR 0x98,
      CHR 0x85, CHR 0xE8, CHR 0xAF, CHR 0xBB]"

text \<open>U+672A U+8BFB: the tooltip of an unread file ("unread").\<close>

definition tooltip_unread :: string where
  "tooltip_unread =
     [CHR 0xE6, CHR 0x9C, CHR 0xAA, CHR 0xE8, CHR 0xAF, CHR 0xBB]"

text \<open>U+672A U+9009 U+62E9 U+6587 U+4EF6: the warning of a command with no target ("no file selected").\<close>

definition msg_no_file :: string where
  "msg_no_file =
     [CHR 0xE6, CHR 0x9C, CHR 0xAA, CHR 0xE9, CHR 0x80, CHR 0x89, CHR 0xE6, CHR 0x8B,
      CHR 0xA9, CHR 0xE6, CHR 0x96, CHR 0x87, CHR 0xE4, CHR 0xBB, CHR 0xB6]"

text \<open>U+65E0 U+6CD5 U+4FDD U+5B58 U+6587 U+4EF6 U+6807 U+8BB0 U+003A U+0020: the prefix of the message of a failed save ("cannot save file marks: ").\<close>

definition msg_cannot_save :: string where
  "msg_cannot_save =
     [CHR 0xE6, CHR 0x97, CHR 0xA0, CHR 0xE6, CHR 0xB3, CHR 0x95, CHR 0xE4, CHR 0xBF,
      CHR 0x9D, CHR 0xE5, CHR 0xAD, CHR 0x98, CHR 0xE6, CHR 0x96, CHR 0x87, CHR 0xE4,
      CHR 0xBB, CHR 0xB6, CHR 0xE6, CHR 0xA0, CHR 0x87, CHR 0xE8, CHR 0xAE, CHR 0xB0,
      CHR 0x3A, CHR 0x20]"

text \<open>U+65E0 U+6CD5 U+52A0 U+8F7D U+6587 U+4EF6 U+6807 U+8BB0 U+003A U+0020: the prefix of the message of a failed load ("cannot load file marks: ").\<close>

definition msg_cannot_load :: string where
  "msg_cannot_load =
     [CHR 0xE6, CHR 0x97, CHR 0xA0, CHR 0xE6, CHR 0xB3, CHR 0x95, CHR 0xE5, CHR 0x8A,
      CHR 0xA0, CHR 0xE8, CHR 0xBD, CHR 0xBD, CHR 0xE6, CHR 0x96, CHR 0x87, CHR 0xE4,
      CHR 0xBB, CHR 0xB6, CHR 0xE6, CHR 0xA0, CHR 0x87, CHR 0xE8, CHR 0xAE, CHR 0xB0,
      CHR 0x3A, CHR 0x20]"

section \<open>The decoration provider\<close>

text \<open>\<^verbatim>\<open>FileDecorationsProvider.updateDecorations(uri?)\<close>: with a URI, one event for it;
  without, one event for the URIs of all marked files, and none when there is no marked
  file.\<close>

definition updateDecorations :: "uri option \<Rightarrow> world \<Rightarrow> world" where
  "updateDecorations uri w =
     (case uri of
        Some u \<Rightarrow> fire (One u) w
      | None \<Rightarrow>
          (let markedUris = map Uri_file (Map_keys (fileMarks w))
           in if length markedUris > 0 then fire (Many markedUris) w else w))"

text \<open>\<^verbatim>\<open>FileDecorationsProvider.provideFileDecoration(uri)\<close>; \<open>None\<close> is \<^verbatim>\<open>undefined\<close>.\<close>

definition provideFileDecoration :: "world \<Rightarrow> uri \<Rightarrow> FileDecoration option" where
  "provideFileDecoration w uri =
     (let filePath = fsPath uri
      in case Map_get (fileMarks w) filePath of
           None \<Rightarrow> None
         | Some mark \<Rightarrow>
             (let (badge0, tooltip0, color0) =
                    (case type mark of
                       READ \<Rightarrow>
                         (badge_read, tooltip_read, Some (ThemeColor ''fileMarker.read''))
                     | PARTIAL \<Rightarrow>
                         (badge_partial, tooltip_partial,
                          Some (ThemeColor ''fileMarker.partial''))
                     | UNREAD \<Rightarrow>
                         (badge_unread, tooltip_unread,
                          Some (ThemeColor ''fileMarker.unread'')));
                  tooltip1 =
                    (if truthy (note mark) then tooltip0 @ '': '' @ note mark else tooltip0)
              in Some \<lparr>badge = badge0, tooltip = tooltip1, color = color0\<rparr>))"

section \<open>Persistence\<close>

text \<open>\<^verbatim>\<open>saveMarks()\<close>: without a storage path (\<^verbatim>\<open>!storageFile\<close>: the path is
  \<^verbatim>\<open>undefined\<close> or empty) nothing happens; a write that throws is caught and shown
  with \<^verbatim>\<open>showErrorMessage\<close>.\<close>

definition saveMarks :: "world \<Rightarrow> world" where
  "saveMarks w =
     (case storageFile w of
        None \<Rightarrow> w
      | Some f \<Rightarrow>
          if \<not> truthy f then w
          else
            (let data = fold (\<lambda>(key, v) d. obj_assign d key v) (fileMarks w) []
             in case writeFileSync f (JSON_stringify data) w of
                  (None, w') \<Rightarrow> w'
                | (Some e, w') \<Rightarrow> showErrorMessage (msg_cannot_save @ e) w'))"

text \<open>\<^verbatim>\<open>loadMarks()\<close>: without a storage path or without the file nothing happens; a
  read or a parse that throws is caught and shown, the map being cleared only after the
  parse.\<close>

definition loadMarks :: "world \<Rightarrow> world" where
  "loadMarks w =
     (case storageFile w of
        None \<Rightarrow> w
      | Some f \<Rightarrow>
          if \<not> truthy f \<or> \<not> existsSync f w then w
          else
            (case readFileSync f w of
               Inl e \<Rightarrow> showErrorMessage (msg_cannot_load @ e) w
             | Inr data \<Rightarrow>
                 (case JSON_parse data of
                    Inl e \<Rightarrow> showErrorMessage (msg_cannot_load @ e) w
                  | Inr parsed \<Rightarrow>
                      w\<lparr>fileMarks :=
                          fold (\<lambda>(key, v) m. Map_set m key v) (Object_entries parsed) []\<rparr>)))"

text \<open>\<^verbatim>\<open>deactivate()\<close>\<close>

definition deactivate :: "world \<Rightarrow> world" where
  "deactivate w = saveMarks w"

section \<open>The commands\<close>

text \<open>\<^verbatim>\<open>class MarkAsQuickPickItem\<close>, without its icon.\<close>

record MarkAsQuickPickItem =
  label :: string
  description :: string
  "value" :: FileMarkType

text \<open>The three items of the quick pick, with the labels and descriptions of the source
  (as UTF-8 bytes).\<close>

text \<open>Label U+2705 U+0020 U+5DF2 U+8BFB, description U+6807 U+8BB0 U+4E3A U+5DF2 U+5B8C U+6210 U+9605 U+8BFB.\<close>

definition item_read :: MarkAsQuickPickItem where
  "item_read =
     \<lparr>label =
     [CHR 0xE2, CHR 0x9C, CHR 0x85, CHR 0x20, CHR 0xE5, CHR 0xB7, CHR 0xB2, CHR 0xE8,
      CHR 0xAF, CHR 0xBB],
      description =
     [CHR 0xE6, CHR 0xA0, CHR 0x87, CHR 0xE8, CHR 0xAE, CHR 0xB0, CHR 0xE4, CHR 0xB8,
      CHR 0xBA, CHR 0xE5, CHR 0xB7, CHR 0xB2, CHR 0xE5, CHR 0xAE, CHR 0x8C, CHR 0xE6,
      CHR 0x88, CHR 0x90, CHR 0xE9, CHR 0x98, CHR 0x85, CHR 0xE8, CHR 0xAF, CHR 0xBB],
      value = READ\<rparr>"

text \<open>Label U+1F7E0 U+0020 U+90E8 U+5206 U+9605 U+8BFB, description U+6807 U+8BB0 U+4E3A U+90E8 U+5206 U+9605 U+8BFB.\<close>

definition item_partial :: MarkAsQuickPickItem where
  "item_partial =
     \<lparr>label =
     [CHR 0xF0, CHR 0x9F, CHR 0x9F, CHR 0xA0, CHR 0x20, CHR 0xE9, CHR 0x83, CHR 0xA8,
      CHR 0xE5, CHR 0x88, CHR 0x86, CHR 0xE9, CHR 0x98, CHR 0x85, CHR 0xE8, CHR 0xAF,
      CHR 0xBB],
      description =
     [CHR 0xE6, CHR 0xA0, CHR 0x87, CHR 0xE8, CHR 0xAE, CHR 0xB0, CHR 0xE4, CHR 0xB8,
      CHR 0xBA, CHR 0xE9, CHR 0x83, CHR 0xA8, CHR 0xE5, CHR 0x88, CHR 0x86, CHR 0xE9,
      CHR 0x98, CHR 0x85, CHR 0xE8, CHR 0xAF, CHR 0xBB],
      value = PARTIAL\<rparr>"

text \<open>Label U+2757 U+0020 U+672A U+8BFB, description U+6807 U+8BB0 U+4E3A U+672A U+9605 U+8BFB.\<close>

definition item_unread :: MarkAsQuickPickItem where
  "item_unread =
     \<lparr>label =
     [CHR 0xE2, CHR 0x9D, CHR 0x97, CHR 0x20, CHR 0xE6, CHR 0x9C, CHR 0xAA, CHR 0xE8,
      CHR 0xAF, CHR 0xBB],
      description =
     [CHR 0xE6, CHR 0xA0, CHR 0x87, CHR 0xE8, CHR 0xAE, CHR 0xB0, CHR 0xE4, CHR 0xB8,
      CHR 0xBA, CHR 0xE6, CHR 0x9C, CHR 0xAA, CHR 0xE9, CHR 0x98, CHR 0x85, CHR 0xE8,
      CHR 0xAF, CHR 0xBB],
      value = UNREAD\<rparr>"

definition quickPick_items :: "MarkAsQuickPickItem list" where
  "quickPick_items = [item_read, item_partial, item_unread]"

text \<open>
  What the user does with the quick pick of \<^verbatim>\<open>fileMarker.markFile\<close>: it is dismissed, or
  it is accepted with \<^verbatim>\<open>selectedItems[0]\<close> (which may be \<^verbatim>\<open>undefined\<close>), the answer of the
  input box (\<^verbatim>\<open>undefined\<close> when it is cancelled) and the value of \<^verbatim>\<open>Date.now()\<close> when
  the mark is built.
\<close>

datatype pick = Dismissed | Accepted "MarkAsQuickPickItem option" "string option" int

text \<open>\<^verbatim>\<open>uri || vscode.window.activeTextEditor?.document.uri\<close>: the command's argument, or
  else the document of the active editor.\<close>

definition target :: "uri option \<Rightarrow> uri option \<Rightarrow> uri option" where
  "target arg active = (case arg of Some u \<Rightarrow> Some u | None \<Rightarrow> active)"

text \<open>The handler of \<^verbatim>\<open>quickPick.onDidAccept\<close>, for the file the command was called
  on.\<close>

definition onDidAccept ::
  "uri \<Rightarrow> MarkAsQuickPickItem option \<Rightarrow> string option \<Rightarrow> int \<Rightarrow> world \<Rightarrow> world" where
  "onDidAccept fileUri selected note_input now w =
     (case selected of
        None \<Rightarrow> w
      | Some item \<Rightarrow>
          (let filePath = fsPath fileUri;
               w1 = w\<lparr>fileMarks :=
                        Map_set (fileMarks w) filePath
                          \<lparr>type = value item, note = or_empty note_input, timestamp = now\<rparr>\<rparr>;
               w2 = updateDecorations (Some fileUri) w1
           in saveMarks w2))"

text \<open>The command \<^verbatim>\<open>fileMarker.markFile\<close>.\<close>

definition markFileCommand :: "uri option \<Rightarrow> uri option \<Rightarrow> pick \<Rightarrow> world \<Rightarrow> world" where
  "markFileCommand arg active p w =
     (case target arg active of
        None \<Rightarrow> showWarningMessage msg_no_file w
      | Some fileUri \<Rightarrow>
          (case p of
             Dismissed \<Rightarrow> w
           | Accepted selected note_input now \<Rightarrow> onDidAccept fileUri selected note_input now w))"

text \<open>What a JavaScript function returns to its caller: the handler of
  \<^verbatim>\<open>fileMarker.clearMark\<close> has no \<^verbatim>\<open>return\<close> with a value, so it returns
  \<^verbatim>\<open>undefined\<close> on every path.\<close>

datatype jsvalue = Undefined | Boolean bool

text \<open>The command \<^verbatim>\<open>fileMarker.clearMark\<close>: the value returned and the world after
  it.\<close>

definition clearMarkCommand :: "uri option \<Rightarrow> uri option \<Rightarrow> world \<Rightarrow> jsvalue \<times> world" where
  "clearMarkCommand arg active w =
     (case target arg active of
        None \<Rightarrow> (Undefined, showWarningMessage msg_no_file w)
      | Some fileUri \<Rightarrow>
          (let filePath = fsPath fileUri
           in if Map_has (fileMarks w) filePath
              then
                (let w1 = w\<lparr>fileMarks := Map_delete (fileMarks w) filePath\<rparr>;
                     w2 = updateDecorations (Some fileUri) w1
                 in (Undefined, saveMarks w2))
              else (Undefined, w)))"

section \<open>Sessions\<close>

text \<open>A session is the list of the commands the user runs, each with its argument, the
  document of the active editor at that moment and, for a mark, what the user answers.\<close>

datatype command =
  MarkFile "uri option" "uri option" pick
| ClearMark "uri option" "uri option"

fun step :: "command \<Rightarrow> world \<Rightarrow> world" where
  "step (MarkFile arg active p) w = markFileCommand arg active p w"
| "step (ClearMark arg active) w = snd (clearMarkCommand arg active w)"

definition run :: "command list \<Rightarrow> world \<Rightarrow> world" where
  "run cs w = fold step cs w"

text \<open>The command stores a mark for the path \<open>p\<close>: a mark command with a target of
  that path, accepted with a selected item.\<close>

fun sets_path :: "command \<Rightarrow> string \<Rightarrow> bool" where
  "sets_path (MarkFile arg active (Accepted (Some item) n t)) p =
     (case target arg active of Some u \<Rightarrow> fsPath u = p | None \<Rightarrow> False)"
| "sets_path _ p = False"

text \<open>The state when the module is loaded: an empty map, no storage path yet, nothing
  done to the host. The file system is the environment's.\<close>

definition initial :: "(string \<rightharpoonup> content) \<Rightarrow> (string \<rightharpoonup> string) \<Rightarrow> (string \<rightharpoonup> string) \<Rightarrow> world" where
  "initial d we re =
     \<lparr>fileMarks = [], storageFile = None, disk = d, write_error = we, read_error = re,
      fired = [], messages = [], writes = []\<rparr>"

section \<open>Example sessions\<close>

text \<open>The state once \<^verbatim>\<open>activate\<close> has set the storage path and found no file there: the
  file system is empty and every write succeeds.\<close>

definition session0 :: world where
  "session0 =
     (initial Map.empty Map.empty Map.empty)\<lparr>storageFile := Some ''/storage/fileMarks.json''\<rparr>"

text \<open>The user marks \<^verbatim>\<open>/a.txt\<close> unread with an empty note, marks it again read with the
  note \<^verbatim>\<open>looks good\<close>, then marks \<^verbatim>\<open>/b.txt\<close> partially read and cancels the input
  box.\<close>

definition marked_ab :: world where
  "marked_ab =
     run [MarkFile (Some (Uri ''/a.txt'')) None (Accepted (Some item_unread) (Some []) 1000),
          MarkFile (Some (Uri ''/a.txt'')) None
            (Accepted (Some item_read) (Some ''looks good'') 2000),
          MarkFile None (Some (Uri ''/b.txt'')) (Accepted (Some item_partial) None 3000)]
       session0"

text \<open>The same marks, with a storage file that can no longer be written.\<close>

definition readonly_ab :: world where
  "readonly_ab =
     marked_ab\<lparr>write_error :=
       [''/storage/fileMarks.json'' \<mapsto> ''Error: EACCES: permission denied'']\<rparr>"

text \<open>The user marks the document of the URI \<^verbatim>\<open>untitled:__proto__\<close>, whose \<^verbatim>\<open>fsPath\<close> is
  \<^verbatim>\<open>__proto__\<close>.\<close>

definition marked_proto :: world where
  "marked_proto =
     run [MarkFile None (Some (Uri ''__proto__'')) (Accepted (Some item_read) None 1000)]
       session0"

text \<open>A new session over the file system an earlier one left: the map is empty again,
  and \<^verbatim>\<open>loadMarks\<close> fills it.\<close>

definition reload :: "world \<Rightarrow> world" where
  "reload w = loadMarks (w\<lparr>fileMarks := []\<rparr>)"

section \<open>Facts about the map\<close>

lemma Map_get_set: "Map_get (Map_set m k v) = (Map_get m)(k \<mapsto> v)"
  by (rule ext) (simp add: Map_get_def Map_set_def update_conv')

lemma Map_get_delete: "Map_get (Map_delete m k) = (Map_get m)(k := None)"
  by (rule ext) (simp add: Map_get_def Map_delete_def delete_conv')

lemma Map_has_get: "Map_has m k = (Map_get m k \<noteq> None)"
  by (simp add: Map_has_def Map_get_def)

lemma Map_delete_absent: "\<not> Map_has m k \<Longrightarrow> Map_delete m k = m"
  by (simp add: Map_has_def Map_delete_def map_of_eq_None_iff)

lemma or_empty_eq: "or_empty n = (case n of None \<Rightarrow> [] | Some s \<Rightarrow> s)"
  by (simp add: or_empty_def truthy_def split: option.splits)

section \<open>What each handler changes\<close>

lemma fileMarks_saveMarks: "fileMarks (saveMarks w) = fileMarks w"
  by (simp add: saveMarks_def writeFileSync_def showErrorMessage_def Let_def
      split: option.splits prod.splits)

lemma fired_saveMarks: "fired (saveMarks w) = fired w"
  by (simp add: saveMarks_def writeFileSync_def showErrorMessage_def Let_def
      split: option.splits prod.splits)

lemma saveMarks_keeps_paths:
  "storageFile (saveMarks w) = storageFile w \<and> read_error (saveMarks w) = read_error w"
  by (simp add: saveMarks_def writeFileSync_def showErrorMessage_def Let_def
      split: option.splits prod.splits)

lemma writes_saveMarks:
  "writes (saveMarks w) =
     writes w @
       (case storageFile w of
          None \<Rightarrow> []
        | Some f \<Rightarrow>
            if truthy f
            then [(f, JSON_stringify (fold (\<lambda>(key, v) d. obj_assign d key v) (fileMarks w) []))]
            else [])"
  by (simp add: saveMarks_def writeFileSync_def showErrorMessage_def Let_def
      split: option.splits prod.splits)

lemma saveMarks_write_fails:
  assumes "storageFile w = Some f" and "f \<noteq> []" and "write_error w f = Some e"
  shows "saveMarks w =
     w\<lparr>writes := writes w @
          [(f, JSON_stringify (fold (\<lambda>(key, v) d. obj_assign d key v) (fileMarks w) []))],
       messages := messages w @ [ErrorMessage (msg_cannot_save @ e)]\<rparr>"
  using assms
  by (simp add: saveMarks_def truthy_def writeFileSync_def showErrorMessage_def Let_def)

lemma fileMarks_updateDecorations: "fileMarks (updateDecorations u w) = fileMarks w"
  by (simp add: updateDecorations_def fire_def Let_def split: option.splits)

lemma fileMarks_onDidAccept:
  "fileMarks (onDidAccept fileUri (Some item) n now w) =
     Map_set (fileMarks w) (fsPath fileUri)
       \<lparr>type = value item, note = or_empty n, timestamp = now\<rparr>"
  by (simp add: onDidAccept_def Let_def fileMarks_saveMarks fileMarks_updateDecorations)

lemma Map_get_onDidAccept:
  "Map_get (fileMarks (onDidAccept fileUri (Some item) n now w)) =
     (Map_get (fileMarks w))(fsPath fileUri \<mapsto>
        \<lparr>type = value item, note = (case n of None \<Rightarrow> [] | Some s \<Rightarrow> s),
         timestamp = now\<rparr>)"
  by (simp add: fileMarks_onDidAccept Map_get_set or_empty_eq)

lemma clearMarkCommand_absent:
  "target arg active = Some u \<Longrightarrow> \<not> Map_has (fileMarks w) (fsPath u) \<Longrightarrow>
   clearMarkCommand arg active w = (Undefined, w)"
  by (simp add: clearMarkCommand_def)

lemma clearMarkCommand_present:
  "target arg active = Some u \<Longrightarrow> Map_has (fileMarks w) (fsPath u) \<Longrightarrow>
   clearMarkCommand arg active w =
     (Undefined,
      saveMarks (updateDecorations (Some u)
        (w\<lparr>fileMarks := Map_delete (fileMarks w) (fsPath u)\<rparr>)))"
  by (simp add: clearMarkCommand_def Let_def)

lemma clearMarkCommand_returns: "fst (clearMarkCommand arg active w) = Undefined"
  by (simp add: clearMarkCommand_def Let_def split: option.splits)

lemma fileMarks_clearMarkCommand:
  "target arg active = Some u \<Longrightarrow>
   fileMarks (snd (clearMarkCommand arg active w)) = Map_delete (fileMarks w) (fsPath u)"
  by (cases "Map_has (fileMarks w) (fsPath u)")
    (simp_all add: clearMarkCommand_absent clearMarkCommand_present fileMarks_saveMarks
      fileMarks_updateDecorations Map_delete_absent)

lemma fileMarks_clearMarkCommand_no_target:
  "target arg active = None \<Longrightarrow>
   fileMarks (snd (clearMarkCommand arg active w)) = fileMarks w"
  by (simp add: clearMarkCommand_def showWarningMessage_def)

lemma fired_clearMarkCommand_present:
  "target arg active = Some u \<Longrightarrow> Map_has (fileMarks w) (fsPath u) \<Longrightarrow>
   fired (snd (clearMarkCommand arg active w)) = fired w @ [One u]"
  by (simp add: clearMarkCommand_present fired_saveMarks updateDecorations_def fire_def)

lemma writes_clearMarkCommand_present:
  "target arg active = Some u \<Longrightarrow> Map_has (fileMarks w) (fsPath u) \<Longrightarrow>
   writes (snd (clearMarkCommand arg active w)) =
     writes w @
       (case storageFile w of
          None \<Rightarrow> []
        | Some f \<Rightarrow>
            if truthy f
            then [(f, JSON_stringify (fold (\<lambda>(key, v) d. obj_assign d key v)
                        (Map_delete (fileMarks w) (fsPath u)) []))]
            else [])"
  by (simp add: clearMarkCommand_present writes_saveMarks updateDecorations_def fire_def
      split: option.splits)

section \<open>The keys of the map stay distinct\<close>

text \<open>A \<^verbatim>\<open>Map\<close> holds a key once. The association list of a fresh module has this
  property, and every handler keeps it.\<close>

lemma distinct_fold_Map_set:
  "distinct (map fst acc) \<Longrightarrow>
   distinct (map fst (fold (\<lambda>(key, v) m. Map_set m key v) xs acc))"
  by (induction xs arbitrary: acc) (auto simp: Map_set_def distinct_update)

lemma distinct_loadMarks:
  "distinct (map fst (fileMarks w)) \<Longrightarrow> distinct (map fst (fileMarks (loadMarks w)))"
  by (simp add: loadMarks_def showErrorMessage_def distinct_fold_Map_set
      split: option.splits sum.splits)

lemma distinct_step:
  assumes "distinct (map fst (fileMarks w))"
  shows "distinct (map fst (fileMarks (step c w)))"
proof (cases c)
  case (MarkFile arg active pk)
  show ?thesis
  proof (cases "target arg active")
    case None
    with MarkFile assms show ?thesis
      by (simp add: markFileCommand_def showWarningMessage_def)
  next
    case (Some u)
    note tgt = this
    show ?thesis
    proof (cases pk)
      case Dismissed
      with MarkFile tgt assms show ?thesis by (simp add: markFileCommand_def)
    next
      case (Accepted sel n t)
      show ?thesis
      proof (cases sel)
        case None
        with MarkFile tgt Accepted assms show ?thesis
          by (simp add: markFileCommand_def onDidAccept_def)
      next
        case (Some item)
        with MarkFile tgt Accepted assms show ?thesis
          by (simp add: markFileCommand_def fileMarks_onDidAccept Map_set_def distinct_update)
      qed
    qed
  qed
next
  case (ClearMark arg active)
  show ?thesis
  proof (cases "target arg active")
    case None
    with ClearMark assms show ?thesis
      by (simp add: fileMarks_clearMarkCommand_no_target)
  next
    case (Some u)
    with ClearMark assms show ?thesis
      by (simp add: fileMarks_clearMarkCommand Map_delete_def distinct_delete)
  qed
qed

lemma distinct_run:
  "distinct (map fst (fileMarks w)) \<Longrightarrow> distinct (map fst (fileMarks (run cs w)))"
  unfolding run_def
  by (induction cs arbitrary: w) (simp_all add: distinct_step)

section \<open>The example sessions, evaluated\<close>

lemmas handler_defs =
  run_def markFileCommand_def clearMarkCommand_def target_def onDidAccept_def Let_def
  initial_def Map_set_def Map_delete_def Map_has_def Map_get_def Map_keys_def Uri_file_def
  updateDecorations_def fire_def saveMarks_def loadMarks_def reload_def
  showErrorMessage_def showWarningMessage_def writeFileSync_def readFileSync_def
  existsSync_def JSON_stringify_def JSON_parse_def Object_entries_def obj_assign_def
  obj_define_def is_array_index_def is_digit_def decimal_def or_empty_def truthy_def
  item_read_def item_partial_def item_unread_def

lemma session0_fields:
  "fileMarks session0 = [] \<and> fired session0 = [] \<and> writes session0 = []
   \<and> messages session0 = [] \<and> storageFile session0 = Some ''/storage/fileMarks.json''"
  by (simp add: session0_def initial_def)

lemma marked_ab_fields:
  "fileMarks marked_ab =
     [(''/a.txt'', \<lparr>type = READ, note = ''looks good'', timestamp = 2000\<rparr>),
      (''/b.txt'', \<lparr>type = PARTIAL, note = [], timestamp = 3000\<rparr>)]
   \<and> fired marked_ab = [One (Uri ''/a.txt''), One (Uri ''/a.txt''), One (Uri ''/b.txt'')]
   \<and> messages marked_ab = []
   \<and> storageFile marked_ab = Some ''/storage/fileMarks.json''
   \<and> write_error marked_ab = Map.empty"
  by (simp add: marked_ab_def session0_def handler_defs)

lemma readonly_ab_fields:
  "fileMarks readonly_ab = fileMarks marked_ab
   \<and> fired readonly_ab = fired marked_ab
   \<and> messages readonly_ab = []
   \<and> storageFile readonly_ab = Some ''/storage/fileMarks.json''
   \<and> write_error readonly_ab ''/storage/fileMarks.json''
       = Some ''Error: EACCES: permission denied''"
  by (simp add: readonly_ab_def marked_ab_fields)

section \<open>C1: the presentation of a mark\<close>

text \<open>
  C1 (amended). For every mark held by the map, \<^verbatim>\<open>provideFileDecoration\<close> returns a
  decoration fixed by the mark alone: the badge U+2705, U+1F7E0 or U+2757, the colour
  \<^verbatim>\<open>fileMarker.read\<close>, \<^verbatim>\<open>fileMarker.partial\<close> or \<^verbatim>\<open>fileMarker.unread\<close>, and a tooltip
  whose base is the Chinese text of the source (U+5DF2 U+8BFB for read, U+90E8 U+5206
  U+9605 U+8BFB for partially read, U+672A U+8BFB for unread), followed by \<^verbatim>\<open>": "\<close> and
  the note when the note is not empty and by nothing otherwise.
\<close>

theorem provideFileDecoration_table:
  assumes "Map_get (fileMarks w) (fsPath uri) = Some mark"
  shows "provideFileDecoration w uri =
     Some \<lparr>badge =
             (case type mark of
                READ \<Rightarrow> badge_read | PARTIAL \<Rightarrow> badge_partial | UNREAD \<Rightarrow> badge_unread),
           tooltip =
             (case type mark of
                READ \<Rightarrow> tooltip_read | PARTIAL \<Rightarrow> tooltip_partial
              | UNREAD \<Rightarrow> tooltip_unread)
             @ (if note mark = [] then [] else '': '' @ note mark),
           color =
             Some (ThemeColor
               (case type mark of
                  READ \<Rightarrow> ''fileMarker.read'' | PARTIAL \<Rightarrow> ''fileMarker.partial''
                | UNREAD \<Rightarrow> ''fileMarker.unread''))\<rparr>"
  using assms
  by (simp add: provideFileDecoration_def Let_def truthy_def split: FileMarkType.splits)

text \<open>The theorem at the two marks of the example session: a read file with a note and
  a partially read file without one.\<close>

theorem provideFileDecoration_table_witness:
  "Map_get (fileMarks marked_ab) (fsPath (Uri ''/a.txt''))
     = Some \<lparr>type = READ, note = ''looks good'', timestamp = 2000\<rparr>
   \<and> provideFileDecoration marked_ab (Uri ''/a.txt'')
     = Some \<lparr>badge = badge_read, tooltip = tooltip_read @ '': looks good'',
             color = Some (ThemeColor ''fileMarker.read'')\<rparr>
   \<and> Map_get (fileMarks marked_ab) (fsPath (Uri ''/b.txt''))
     = Some \<lparr>type = PARTIAL, note = [], timestamp = 3000\<rparr>
   \<and> provideFileDecoration marked_ab (Uri ''/b.txt'')
     = Some \<lparr>badge = badge_partial, tooltip = tooltip_partial,
             color = Some (ThemeColor ''fileMarker.partial'')\<rparr>"
proof -
  have a: "Map_get (fileMarks marked_ab) (fsPath (Uri ''/a.txt''))
      = Some \<lparr>type = READ, note = ''looks good'', timestamp = 2000\<rparr>"
    by (simp add: marked_ab_fields Map_get_def)
  have b: "Map_get (fileMarks marked_ab) (fsPath (Uri ''/b.txt''))
      = Some \<lparr>type = PARTIAL, note = [], timestamp = 3000\<rparr>"
    by (simp add: marked_ab_fields Map_get_def)
  from provideFileDecoration_table [OF a] provideFileDecoration_table [OF b] a b
  show ?thesis by simp
qed

text \<open>The claim as stated fails: the tooltip of a read file without a note is the
  source's U+5DF2 U+8BFB, not \<^verbatim>\<open>Read\<close>.\<close>

theorem provideFileDecoration_tooltip_counterexample:
  "provideFileDecoration
     (run [MarkFile (Some (Uri ''/a.txt'')) None (Accepted (Some item_read) (Some []) 1000)]
        session0)
     (Uri ''/a.txt'')
     = Some \<lparr>badge = badge_read, tooltip = tooltip_read,
             color = Some (ThemeColor ''fileMarker.read'')\<rparr>
   \<and> tooltip_read \<noteq> ''Read''"
  by (simp add: session0_def handler_defs provideFileDecoration_def tooltip_read_def)

section \<open>C2: marking a file\<close>

text \<open>
  C2. For every file, selected item, answer of the input box and clock value, the accept
  handler stores for the file's path exactly the record made of the item's kind, the
  note (the empty string when the input box was cancelled) and the clock value as
  timestamp, whatever the map held and whether or not the save that follows succeeds;
  the other paths keep their records. A lookup of the path then returns that record, and
  its timestamp is the clock value read in the call, hence not before it.
\<close>

theorem set_then_get:
  "Map_get (fileMarks (onDidAccept fileUri (Some item) n now w)) (fsPath fileUri) =
     Some \<lparr>type = value item, note = (case n of None \<Rightarrow> [] | Some s \<Rightarrow> s),
           timestamp = now\<rparr>
   \<and> Map_get (fileMarks (onDidAccept fileUri (Some item) n now w)) =
       (Map_get (fileMarks w))(fsPath fileUri \<mapsto>
          \<lparr>type = value item, note = (case n of None \<Rightarrow> [] | Some s \<Rightarrow> s),
           timestamp = now\<rparr>)
   \<and> markFileCommand (Some fileUri) active (Accepted (Some item) n now) w =
       onDidAccept fileUri (Some item) n now w"
  by (simp add: Map_get_onDidAccept markFileCommand_def target_def)

section \<open>C3: saving and loading again\<close>

lemma update_fresh: "k \<notin> fst ` set al \<Longrightarrow> AList.update k v al = al @ [(k, v)]"
  by (induction al) auto

lemma fold_update_distinct:
  "distinct (map fst xs) \<Longrightarrow> fst ` set xs \<inter> fst ` set acc = {} \<Longrightarrow>
   fold (\<lambda>(k, v) m. AList.update k v m) xs acc = acc @ xs"
proof (induction xs arbitrary: acc)
  case Nil
  then show ?case by simp
next
  case (Cons x xs)
  obtain k v where x: "x = (k, v)" by (cases x)
  from Cons.prems x have fresh: "k \<notin> fst ` set acc" by auto
  from Cons.prems x have d: "distinct (map fst xs)" by simp
  from Cons.prems x have disj: "fst ` set xs \<inter> fst ` set (acc @ [(k, v)]) = {}" by auto
  show ?case
    using Cons.IH [OF d disj] by (simp add: x update_fresh [OF fresh])
qed

text \<open>The object \<^verbatim>\<open>saveMarks\<close> builds holds every entry of the map but the one of the key
  \<^verbatim>\<open>__proto__\<close>.\<close>

lemma fold_obj_assign:
  "distinct (map fst xs) \<Longrightarrow> fst ` set xs \<inter> fst ` set acc = {} \<Longrightarrow>
   fold (\<lambda>(key, v) d. obj_assign d key v) xs acc = acc @ AList.delete ''__proto__'' xs"
proof (induction xs arbitrary: acc)
  case Nil
  then show ?case by simp
next
  case (Cons x xs)
  obtain k v where x: "x = (k, v)" by (cases x)
  from Cons.prems x have fresh: "k \<notin> fst ` set acc" by auto
  from Cons.prems x have d: "distinct (map fst xs)" by simp
  show ?case
  proof (cases "k = ''__proto__''")
    case True
    from Cons.prems have disj: "fst ` set xs \<inter> fst ` set acc = {}" by auto
    show ?thesis using Cons.IH [OF d disj] True by (simp add: x obj_assign_def)
  next
    case False
    from Cons.prems x have disj: "fst ` set xs \<inter> fst ` set (acc @ [(k, v)]) = {}" by auto
    show ?thesis
      using Cons.IH [OF d disj] False by (simp add: x obj_assign_def update_fresh [OF fresh])
  qed
qed

lemma set_Object_entries: "set (Object_entries obj) = set obj"
  by (auto simp: Object_entries_def)

lemma distinct_Object_entries:
  assumes "distinct (map fst obj)"
  shows "distinct (map fst (Object_entries obj))"
proof -
  from assms have d: "distinct obj" and i: "inj_on fst (set obj)"
    by (simp_all add: distinct_map)
  have "distinct (Object_entries obj)"
    using d by (auto simp: Object_entries_def)
  with i show ?thesis
    by (simp add: distinct_map set_Object_entries)
qed

lemma map_of_Object_entries:
  assumes "distinct (map fst obj)"
  shows "map_of (Object_entries obj) = map_of obj"
  using map_of_inject_set [OF distinct_Object_entries [OF assms] assms]
  by (simp add: set_Object_entries)

lemma saved_content:
  assumes "distinct (map fst (fileMarks w))" and "storageFile w = Some f" and "f \<noteq> []"
    and "write_error w f = None"
  shows "disk (saveMarks w) f =
     Some (JsonObject (Object_entries (AList.delete ''__proto__'' (fileMarks w))))"
  using assms fold_obj_assign [of "fileMarks w" "[]"]
  by (simp add: saveMarks_def truthy_def writeFileSync_def Let_def JSON_stringify_def)

lemma loadMarks_JsonObject:
  assumes "storageFile w = Some f" and "f \<noteq> []" and "read_error w f = None"
    and "disk w f = Some (JsonObject ms)" and "distinct (map fst ms)"
  shows "map_of (fileMarks (loadMarks w)) = map_of ms"
proof -
  have parsed: "fold (\<lambda>(key, v) obj. obj_define obj key v) ms [] = ms"
    using fold_update_distinct [of ms "[]"] assms(5) by (simp add: obj_define_def)
  have "fold (\<lambda>(key, v) m. Map_set m key v) (Object_entries ms) [] = Object_entries ms"
    using fold_update_distinct [of "Object_entries ms" "[]"]
      distinct_Object_entries [OF assms(5)]
    by (simp add: Map_set_def)
  then have "fileMarks (loadMarks w) = Object_entries ms"
    using assms parsed
    by (simp add: loadMarks_def truthy_def existsSync_def readFileSync_def JSON_parse_def)
  then show ?thesis by (simp add: map_of_Object_entries [OF assms(5)])
qed

text \<open>
  What a save followed by a load into an empty map gives, when the file can be written
  and read: the map that was saved, without the key \<^verbatim>\<open>__proto__\<close>. Every other key
  comes back with its kind, note and timestamp. The keys of the map are distinct in every
  state a session reaches (\<open>distinct_run\<close>, \<open>distinct_loadMarks\<close>).
\<close>

lemma roundtrip_except_proto:
  assumes "distinct (map fst (fileMarks w))" and "storageFile w = Some f" and "f \<noteq> []"
    and "write_error w f = None" and "read_error w f = None"
  shows "Map_get (fileMarks (reload (saveMarks w))) =
     (Map_get (fileMarks w))(''__proto__'' := None)"
proof -
  let ?xs = "AList.delete ''__proto__'' (fileMarks w)"
  let ?w' = "(saveMarks w)\<lparr>fileMarks := []\<rparr>"
  have dd: "distinct (map fst ?xs)"
    using assms(1) by (rule distinct_delete)
  have "map_of (fileMarks (loadMarks ?w')) = map_of (Object_entries ?xs)"
  proof (rule loadMarks_JsonObject [where f = f])
    show "storageFile ?w' = Some f" using assms(2) by (simp add: saveMarks_keeps_paths)
    show "f \<noteq> []" by fact
    show "read_error ?w' f = None" using assms(5) by (simp add: saveMarks_keeps_paths)
    show "disk ?w' f = Some (JsonObject (Object_entries ?xs))"
      using saved_content [OF assms(1-4)] by simp
    show "distinct (map fst (Object_entries ?xs))"
      using dd by (rule distinct_Object_entries)
  qed
  also have "\<dots> = map_of ?xs"
    by (rule map_of_Object_entries [OF dd])
  also have "\<dots> = (map_of (fileMarks w))(''__proto__'' := None)"
    by (rule delete_conv')
  finally show ?thesis by (simp add: Map_get_def reload_def fun_eq_iff)
qed

text \<open>
  C3 (the code at the failing input). The map holds one mark, for the path
  \<^verbatim>\<open>__proto__\<close>; the text written is the JSON of the empty object, and the map loaded
  from it is empty: the mark is lost.
\<close>

theorem roundtrip_loses_proto:
  "fileMarks marked_proto =
     [(''__proto__'', \<lparr>type = READ, note = [], timestamp = 1000\<rparr>)]
   \<and> disk (saveMarks marked_proto) ''/storage/fileMarks.json'' = Some (JsonObject [])
   \<and> fileMarks (reload (saveMarks marked_proto)) = []
   \<and> Map_get (fileMarks (reload (saveMarks marked_proto))) ''__proto__'' = None"
  by (simp add: marked_proto_def session0_def handler_defs)

section \<open>C4: what clearing a mark signals\<close>

text \<open>
  C4 (amended). When the path of the command's target holds a mark,
  \<^verbatim>\<open>fileMarker.clearMark\<close> leaves the path without a mark and fires exactly one event,
  which carries the URI of the cleared file alone: the single-path signal, not the
  array of all marked files.
\<close>

theorem clear_fires_single:
  assumes "target arg active = Some u" and "Map_has (fileMarks w) (fsPath u)"
  shows "Map_get (fileMarks (snd (clearMarkCommand arg active w))) (fsPath u) = None
       \<and> fired (snd (clearMarkCommand arg active w)) = fired w @ [One u]"
  using assms
  by (simp add: fileMarks_clearMarkCommand Map_get_delete fired_clearMarkCommand_present)

theorem clear_fires_single_witness:
  "target (Some (Uri ''/a.txt'')) None = Some (Uri ''/a.txt'')
   \<and> Map_has (fileMarks marked_ab) (fsPath (Uri ''/a.txt''))
   \<and> Map_get (fileMarks (snd (clearMarkCommand (Some (Uri ''/a.txt'')) None marked_ab)))
         ''/a.txt'' = None
   \<and> fired (snd (clearMarkCommand (Some (Uri ''/a.txt'')) None marked_ab)) =
       [One (Uri ''/a.txt''), One (Uri ''/a.txt''), One (Uri ''/b.txt''), One (Uri ''/a.txt'')]"
proof -
  have t: "target (Some (Uri ''/a.txt'')) None = Some (Uri ''/a.txt'')"
    by (simp add: target_def)
  have h: "Map_has (fileMarks marked_ab) (fsPath (Uri ''/a.txt''))"
    by (simp add: marked_ab_fields Map_has_def)
  from clear_fires_single [OF t h] t h show ?thesis
    by (simp add: marked_ab_fields)
qed

text \<open>The claim as stated fails: with \<^verbatim>\<open>/a.txt\<close> and \<^verbatim>\<open>/b.txt\<close> marked, clearing
  \<^verbatim>\<open>/a.txt\<close> fires the event of \<^verbatim>\<open>/a.txt\<close>, where a full refresh would fire the array
  of the files still marked.\<close>

theorem clear_signal_counterexample:
  "Map_has (fileMarks marked_ab) ''/a.txt''
   \<and> Map_keys (fileMarks (snd (clearMarkCommand (Some (Uri ''/a.txt'')) None marked_ab)))
       = [''/b.txt'']
   \<and> fired (snd (clearMarkCommand (Some (Uri ''/a.txt'')) None marked_ab))
       = fired marked_ab @ [One (Uri ''/a.txt'')]
   \<and> fired (updateDecorations None
         (marked_ab\<lparr>fileMarks := Map_delete (fileMarks marked_ab) ''/a.txt''\<rparr>))
       = fired marked_ab @ [Many [Uri ''/b.txt'']]
   \<and> One (Uri ''/a.txt'') \<noteq> Many [Uri ''/b.txt'']"
proof -
  have t: "target (Some (Uri ''/a.txt'')) None = Some (Uri ''/a.txt'')"
    by (simp add: target_def)
  have h: "Map_has (fileMarks marked_ab) (fsPath (Uri ''/a.txt''))"
    by (simp add: marked_ab_fields Map_has_def)
  have k: "Map_keys (fileMarks (snd (clearMarkCommand (Some (Uri ''/a.txt'')) None marked_ab)))
      = [''/b.txt'']"
    by (simp add: fileMarks_clearMarkCommand [OF t] marked_ab_fields Map_delete_def
        Map_keys_def)
  have f: "fired (updateDecorations None
         (marked_ab\<lparr>fileMarks := Map_delete (fileMarks marked_ab) ''/a.txt''\<rparr>))
       = fired marked_ab @ [Many [Uri ''/b.txt'']]"
    by (simp add: updateDecorations_def fire_def marked_ab_fields Map_delete_def Map_keys_def
        Uri_file_def)
  from fired_clearMarkCommand_present [OF t h] h k f show ?thesis by simp
qed

section \<open>C5: marking a file twice\<close>

text \<open>
  C5. For every file, items \<open>a\<close> and \<open>b\<close>, input-box answers and clock values, after
  the accept handler has run for \<open>a\<close> and then for \<open>b\<close> on the same file, the lookup
  of its path returns the record of the second call (kind of \<open>b\<close>, second note,
  second timestamp), and the whole map is what the second call alone would have left:
  nothing of the first record survives.
\<close>

theorem overwrite_last_wins:
  "Map_get (fileMarks (onDidAccept u (Some b) y t2 (onDidAccept u (Some a) x t1 w)))
       (fsPath u) =
     Some \<lparr>type = value b, note = (case y of None \<Rightarrow> [] | Some s \<Rightarrow> s), timestamp = t2\<rparr>
   \<and> Map_get (fileMarks (onDidAccept u (Some b) y t2 (onDidAccept u (Some a) x t1 w))) =
       Map_get (fileMarks (onDidAccept u (Some b) y t2 w))"
  by (simp add: Map_get_onDidAccept)

section \<open>C6: clearing a mark twice\<close>

text \<open>
  C6 (amended). For every target, \<^verbatim>\<open>fileMarker.clearMark\<close> removes the record of the
  target's path if there is one and leaves every other record; it returns
  \<^verbatim>\<open>undefined\<close> whether or not a record was removed. Run twice in a row, the second
  run changes nothing at all; and on a path without a mark the command changes nothing
  and shows no message.
\<close>

theorem clear_idempotent:
  assumes "target arg active = Some u"
  shows "fst (clearMarkCommand arg active w) = Undefined
       \<and> Map_get (fileMarks (snd (clearMarkCommand arg active w))) =
           (Map_get (fileMarks w))(fsPath u := None)
       \<and> clearMarkCommand arg active (snd (clearMarkCommand arg active w)) =
           (Undefined, snd (clearMarkCommand arg active w))
       \<and> (\<not> Map_has (fileMarks w) (fsPath u) \<longrightarrow>
            clearMarkCommand arg active w = (Undefined, w))"
proof -
  let ?w' = "snd (clearMarkCommand arg active w)"
  have g: "Map_get (fileMarks ?w') = (Map_get (fileMarks w))(fsPath u := None)"
    using assms by (simp add: fileMarks_clearMarkCommand Map_get_delete)
  then have "\<not> Map_has (fileMarks ?w') (fsPath u)"
    by (simp add: Map_has_get)
  then have "clearMarkCommand arg active ?w' = (Undefined, ?w')"
    using assms by (rule clearMarkCommand_absent [rotated])
  with g assms show ?thesis
    by (simp add: clearMarkCommand_returns clearMarkCommand_absent)
qed

theorem clear_idempotent_witness:
  "target (Some (Uri ''/a.txt'')) None = Some (Uri ''/a.txt'')
   \<and> fst (clearMarkCommand (Some (Uri ''/a.txt'')) None marked_ab) = Undefined
   \<and> Map_get (fileMarks (snd (clearMarkCommand (Some (Uri ''/a.txt'')) None marked_ab)))
         ''/a.txt'' = None
   \<and> Map_get (fileMarks (snd (clearMarkCommand (Some (Uri ''/a.txt'')) None marked_ab)))
         ''/b.txt'' = Some \<lparr>type = PARTIAL, note = [], timestamp = 3000\<rparr>
   \<and> clearMarkCommand (Some (Uri ''/a.txt'')) None
         (snd (clearMarkCommand (Some (Uri ''/a.txt'')) None marked_ab)) =
       (Undefined, snd (clearMarkCommand (Some (Uri ''/a.txt'')) None marked_ab))
   \<and> target None (Some (Uri ''/c.txt'')) = Some (Uri ''/c.txt'')
   \<and> \<not> Map_has (fileMarks marked_ab) (fsPath (Uri ''/c.txt''))
   \<and> clearMarkCommand None (Some (Uri ''/c.txt'')) marked_ab = (Undefined, marked_ab)"
proof -
  have ta: "target (Some (Uri ''/a.txt'')) None = Some (Uri ''/a.txt'')"
    by (simp add: target_def)
  have tc: "target None (Some (Uri ''/c.txt'')) = Some (Uri ''/c.txt'')"
    by (simp add: target_def)
  have c: "\<not> Map_has (fileMarks marked_ab) (fsPath (Uri ''/c.txt''))"
    by (simp add: marked_ab_fields Map_has_def)
  from clear_idempotent [OF ta, of marked_ab] clear_idempotent [OF tc, of marked_ab] ta tc c
  show ?thesis
    by (simp add: marked_ab_fields Map_get_def)
qed

text \<open>The claim as stated fails: clearing the marked \<^verbatim>\<open>/a.txt\<close> removes its record, and
  the command returns \<^verbatim>\<open>undefined\<close>, not \<^verbatim>\<open>true\<close>.\<close>

theorem clear_returns_counterexample:
  "Map_has (fileMarks marked_ab) ''/a.txt''
   \<and> \<not> Map_has (fileMarks (snd (clearMarkCommand (Some (Uri ''/a.txt'')) None marked_ab)))
         ''/a.txt''
   \<and> fst (clearMarkCommand (Some (Uri ''/a.txt'')) None marked_ab) = Undefined
   \<and> fst (clearMarkCommand (Some (Uri ''/a.txt'')) None marked_ab) \<noteq> Boolean True"
proof -
  have t: "target (Some (Uri ''/a.txt'')) None = Some (Uri ''/a.txt'')"
    by (simp add: target_def)
  have "Map_has (fileMarks marked_ab) ''/a.txt''"
    by (simp add: marked_ab_fields Map_has_def)
  moreover have "\<not> Map_has (fileMarks
      (snd (clearMarkCommand (Some (Uri ''/a.txt'')) None marked_ab))) ''/a.txt''"
    by (simp add: fileMarks_clearMarkCommand [OF t] Map_has_get Map_get_delete)
  ultimately show ?thesis by (simp add: clearMarkCommand_returns)
qed

section \<open>C7: looking up a path without a mark\<close>

lemma step_keeps_absent:
  assumes "Map_get (fileMarks w) p = None" and "\<not> sets_path c p"
  shows "Map_get (fileMarks (step c w)) p = None"
proof (cases c)
  case (MarkFile arg active pk)
  show ?thesis
  proof (cases "target arg active")
    case None
    with MarkFile assms(1) show ?thesis
      by (simp add: markFileCommand_def showWarningMessage_def)
  next
    case (Some u)
    note tgt = this
    show ?thesis
    proof (cases pk)
      case Dismissed
      with MarkFile tgt assms(1) show ?thesis by (simp add: markFileCommand_def)
    next
      case (Accepted sel n t)
      show ?thesis
      proof (cases sel)
        case None
        with MarkFile tgt Accepted assms(1) show ?thesis
          by (simp add: markFileCommand_def onDidAccept_def)
      next
        case (Some item)
        with MarkFile tgt Accepted assms(2) have "fsPath u \<noteq> p" by simp
        with MarkFile tgt Accepted Some assms(1) show ?thesis
          by (simp add: markFileCommand_def Map_get_onDidAccept)
      qed
    qed
  qed
next
  case (ClearMark arg active)
  show ?thesis
  proof (cases "target arg active")
    case None
    with ClearMark assms(1) show ?thesis
      by (simp add: fileMarks_clearMarkCommand_no_target)
  next
    case (Some u)
    with ClearMark assms(1) show ?thesis
      by (simp add: fileMarks_clearMarkCommand Map_get_delete)
  qed
qed

lemma run_keeps_absent:
  "Map_get (fileMarks w) p = None \<Longrightarrow> list_all (\<lambda>c. \<not> sets_path c p) cs \<Longrightarrow>
   Map_get (fileMarks (run cs w)) p = None"
  unfolding run_def
  by (induction cs arbitrary: w) (simp_all add: step_keeps_absent)

lemma provideFileDecoration_absent:
  "Map_get (fileMarks w) p = None \<Longrightarrow> provideFileDecoration w (Uri p) = None"
  by (simp add: provideFileDecoration_def)

text \<open>
  C7. Let \<open>cs\<close> be any commands none of which stores a mark for the path \<open>p\<close>. Run
  from a state whose map is empty, as it is when the module is loaded (\<open>p\<close> was never
  set), or run after \<^verbatim>\<open>fileMarker.clearMark\<close> on \<open>p\<close> from any state (\<open>p\<close> was
  cleared), they leave the lookup of \<open>p\<close> absent, and \<^verbatim>\<open>provideFileDecoration\<close> returns
  \<^verbatim>\<open>undefined\<close> for it: a value, not an error. The lookup and the provider are functions
  of the state that return no state: they change nothing.
\<close>

theorem absent_lookup:
  assumes "list_all (\<lambda>c. \<not> sets_path c p) cs"
  shows "(fileMarks w0 = [] \<longrightarrow>
            Map_get (fileMarks (run cs w0)) p = None
            \<and> provideFileDecoration (run cs w0) (Uri p) = None)
       \<and> Map_get (fileMarks (run cs (snd (clearMarkCommand (Some (Uri p)) active w)))) p = None
       \<and> provideFileDecoration (run cs (snd (clearMarkCommand (Some (Uri p)) active w)))
           (Uri p) = None"
proof -
  have a: "Map_get (fileMarks (run cs w0)) p = None" if "fileMarks w0 = []"
  proof -
    from that have "Map_get (fileMarks w0) p = None" by (simp add: Map_get_def)
    then show ?thesis using assms by (rule run_keeps_absent)
  qed
  have "target (Some (Uri p)) active = Some (Uri p)" by (simp add: target_def)
  then have b: "Map_get (fileMarks (snd (clearMarkCommand (Some (Uri p)) active w))) p = None"
    by (simp add: fileMarks_clearMarkCommand Map_get_delete)
  from a run_keeps_absent [OF b assms] show ?thesis
    by (simp add: provideFileDecoration_absent)
qed

text \<open>The theorem for \<^verbatim>\<open>/a.txt\<close>, with a session that marks and clears \<^verbatim>\<open>/b.txt\<close>.\<close>

theorem absent_lookup_witness:
  "list_all (\<lambda>c. \<not> sets_path c ''/a.txt'')
     [MarkFile None (Some (Uri ''/b.txt'')) (Accepted (Some item_read) None 5000),
      ClearMark (Some (Uri ''/b.txt'')) None]
   \<and> fileMarks session0 = []
   \<and> Map_get (fileMarks
        (run [MarkFile None (Some (Uri ''/b.txt'')) (Accepted (Some item_read) None 5000),
              ClearMark (Some (Uri ''/b.txt'')) None]
           session0)) ''/a.txt'' = None
   \<and> provideFileDecoration
        (run [MarkFile None (Some (Uri ''/b.txt'')) (Accepted (Some item_read) None 5000),
              ClearMark (Some (Uri ''/b.txt'')) None]
           session0) (Uri ''/a.txt'') = None
   \<and> Map_get (fileMarks
        (run [MarkFile None (Some (Uri ''/b.txt'')) (Accepted (Some item_read) None 5000),
              ClearMark (Some (Uri ''/b.txt'')) None]
           (snd (clearMarkCommand (Some (Uri ''/a.txt'')) None marked_ab)))) ''/a.txt'' = None
   \<and> provideFileDecoration
        (run [MarkFile None (Some (Uri ''/b.txt'')) (Accepted (Some item_read) None 5000),
              ClearMark (Some (Uri ''/b.txt'')) None]
           (snd (clearMarkCommand (Some (Uri ''/a.txt'')) None marked_ab))) (Uri ''/a.txt'')
       = None"
proof -
  have h: "list_all (\<lambda>c. \<not> sets_path c ''/a.txt'')
     [MarkFile None (Some (Uri ''/b.txt'')) (Accepted (Some item_read) None 5000),
      ClearMark (Some (Uri ''/b.txt'')) None]"
    by (simp add: target_def)
  have e: "fileMarks session0 = []" by (simp add: session0_fields)
  from absent_lookup [OF h, of session0 None marked_ab] h e
  show ?thesis by simp
qed

section \<open>C8: a save that fails\<close>

text \<open>
  C8 (amended). When the write of the storage file throws, \<^verbatim>\<open>saveMarks\<close> returns
  normally with the map exactly as it was, fires no event, and adds one message, shown
  with \<^verbatim>\<open>showErrorMessage\<close>: an error message, not a warning.
\<close>

theorem save_failure_keeps_store:
  assumes "storageFile w = Some f" and "f \<noteq> []" and "write_error w f = Some e"
  shows "fileMarks (saveMarks w) = fileMarks w
       \<and> fired (saveMarks w) = fired w
       \<and> messages (saveMarks w) = messages w @ [ErrorMessage (msg_cannot_save @ e)]"
  by (simp add: saveMarks_write_fails [OF assms])

theorem save_failure_keeps_store_witness:
  "storageFile readonly_ab = Some ''/storage/fileMarks.json''
   \<and> ''/storage/fileMarks.json'' \<noteq> []
   \<and> write_error readonly_ab ''/storage/fileMarks.json''
       = Some ''Error: EACCES: permission denied''
   \<and> fileMarks (saveMarks readonly_ab) =
       [(''/a.txt'', \<lparr>type = READ, note = ''looks good'', timestamp = 2000\<rparr>),
        (''/b.txt'', \<lparr>type = PARTIAL, note = [], timestamp = 3000\<rparr>)]
   \<and> fired (saveMarks readonly_ab) = fired readonly_ab
   \<and> messages (saveMarks readonly_ab) =
       [ErrorMessage (msg_cannot_save @ ''Error: EACCES: permission denied'')]"
proof -
  have s: "storageFile readonly_ab = Some ''/storage/fileMarks.json''"
    by (simp add: readonly_ab_fields)
  have n: "''/storage/fileMarks.json'' \<noteq> []" by simp
  have e: "write_error readonly_ab ''/storage/fileMarks.json''
       = Some ''Error: EACCES: permission denied''"
    by (simp add: readonly_ab_fields)
  from save_failure_keeps_store [OF s n e] s e show ?thesis
    by (simp add: readonly_ab_fields marked_ab_fields)
qed

text \<open>The claim as stated fails: the one message of the failed save is an error
  message, where the claim has a warning.\<close>

theorem save_failure_message_counterexample:
  "messages readonly_ab = []
   \<and> messages (saveMarks readonly_ab) =
       [ErrorMessage (msg_cannot_save @ ''Error: EACCES: permission denied'')]
   \<and> messages (saveMarks readonly_ab) \<noteq>
       [WarningMessage (msg_cannot_save @ ''Error: EACCES: permission denied'')]"
proof -
  have s: "storageFile readonly_ab = Some ''/storage/fileMarks.json''"
    by (simp add: readonly_ab_fields)
  have n: "''/storage/fileMarks.json'' \<noteq> []" by simp
  have e: "write_error readonly_ab ''/storage/fileMarks.json''
       = Some ''Error: EACCES: permission denied''"
    by (simp add: readonly_ab_fields)
  show ?thesis
    by (simp add: saveMarks_write_fails [OF s n e] readonly_ab_fields)
qed

section \<open>C9: a full refresh of an empty map\<close>

text \<open>
  C9. \<^verbatim>\<open>updateDecorations()\<close> without a URI changes nothing, and so fires no event,
  when the map holds no mark; when the map holds a mark it fires one event, which
  carries the URIs of all marked paths in the order of the map.
\<close>

theorem full_refresh_empty:
  "(fileMarks w = [] \<longrightarrow> updateDecorations None w = w)
   \<and> (fileMarks w \<noteq> [] \<longrightarrow>
        updateDecorations None w =
          w\<lparr>fired := fired w @ [Many (map Uri_file (Map_keys (fileMarks w)))]\<rparr>)"
  by (simp add: updateDecorations_def Map_keys_def fire_def)

theorem full_refresh_empty_witness:
  "fileMarks session0 = []
   \<and> updateDecorations None session0 = session0
   \<and> fileMarks marked_ab \<noteq> []
   \<and> fired (updateDecorations None marked_ab) =
       fired marked_ab @ [Many [Uri ''/a.txt'', Uri ''/b.txt'']]"
proof -
  have e: "fileMarks session0 = []" by (simp add: session0_fields)
  have m: "fileMarks marked_ab \<noteq> []" by (simp add: marked_ab_fields)
  from full_refresh_empty [of session0] full_refresh_empty [of marked_ab] e m
  show ?thesis by (simp add: marked_ab_fields Map_keys_def Uri_file_def)
qed

section \<open>C10: clearing a path without a mark\<close>

text \<open>
  C10. On a target whose path holds no mark, \<^verbatim>\<open>fileMarker.clearMark\<close> returns with the
  whole state as it was: no call of \<^verbatim>\<open>fs.writeFileSync\<close>, no event, no message. If the
  command fired an event or called \<^verbatim>\<open>fs.writeFileSync\<close>, the path held a mark; and when
  it holds one, the command fires the single event of the target and runs
  \<^verbatim>\<open>saveMarks\<close>, which writes the map without the path when there is a storage path.
\<close>

theorem clear_absent_silent:
  assumes "target arg active = Some u"
  shows "(\<not> Map_has (fileMarks w) (fsPath u) \<longrightarrow>
            clearMarkCommand arg active w = (Undefined, w))
       \<and> (fired (snd (clearMarkCommand arg active w)) \<noteq> fired w
            \<or> writes (snd (clearMarkCommand arg active w)) \<noteq> writes w \<longrightarrow>
            Map_has (fileMarks w) (fsPath u))
       \<and> (Map_has (fileMarks w) (fsPath u) \<longrightarrow>
            fired (snd (clearMarkCommand arg active w)) = fired w @ [One u]
            \<and> writes (snd (clearMarkCommand arg active w)) =
                writes w @
                  (case storageFile w of
                     None \<Rightarrow> []
                   | Some f \<Rightarrow>
                       if truthy f
                       then [(f, JSON_stringify (fold (\<lambda>(key, v) d. obj_assign d key v)
                                   (Map_delete (fileMarks w) (fsPath u)) []))]
                       else []))"
proof (cases "Map_has (fileMarks w) (fsPath u)")
  case True
  with assms show ?thesis
    by (simp add: fired_clearMarkCommand_present writes_clearMarkCommand_present)
next
  case False
  with assms show ?thesis
    by (simp add: clearMarkCommand_absent)
qed

theorem clear_absent_silent_witness:
  "target (Some (Uri ''/c.txt'')) None = Some (Uri ''/c.txt'')
   \<and> \<not> Map_has (fileMarks marked_ab) (fsPath (Uri ''/c.txt''))
   \<and> clearMarkCommand (Some (Uri ''/c.txt'')) None marked_ab = (Undefined, marked_ab)
   \<and> target (Some (Uri ''/b.txt'')) None = Some (Uri ''/b.txt'')
   \<and> Map_has (fileMarks marked_ab) (fsPath (Uri ''/b.txt''))
   \<and> fired (snd (clearMarkCommand (Some (Uri ''/b.txt'')) None marked_ab)) =
       fired marked_ab @ [One (Uri ''/b.txt'')]
   \<and> writes (snd (clearMarkCommand (Some (Uri ''/b.txt'')) None marked_ab)) =
       writes marked_ab @
         [(''/storage/fileMarks.json'',
           JsonObject [(''/a.txt'', \<lparr>type = READ, note = ''looks good'', timestamp = 2000\<rparr>)])]"
proof -
  have tc: "target (Some (Uri ''/c.txt'')) None = Some (Uri ''/c.txt'')"
    by (simp add: target_def)
  have tb: "target (Some (Uri ''/b.txt'')) None = Some (Uri ''/b.txt'')"
    by (simp add: target_def)
  have c: "\<not> Map_has (fileMarks marked_ab) (fsPath (Uri ''/c.txt''))"
    by (simp add: marked_ab_fields Map_has_def)
  have b: "Map_has (fileMarks marked_ab) (fsPath (Uri ''/b.txt''))"
    by (simp add: marked_ab_fields Map_has_def)
  have j: "JSON_stringify (fold (\<lambda>(key, v) d. obj_assign d key v)
        (Map_delete (fileMarks marked_ab) (fsPath (Uri ''/b.txt''))) []) =
      JsonObject [(''/a.txt'', \<lparr>type = READ, note = ''looks good'', timestamp = 2000\<rparr>)]"
    by (simp add: marked_ab_fields Map_delete_def obj_assign_def JSON_stringify_def
        Object_entries_def is_array_index_def is_digit_def)
  have s: "storageFile marked_ab = Some ''/storage/fileMarks.json''"
    by (simp add: marked_ab_fields)
  from clear_absent_silent [OF tc, of marked_ab] c
  have 1: "clearMarkCommand (Some (Uri ''/c.txt'')) None marked_ab = (Undefined, marked_ab)"
    by blast
  have n: "truthy ''/storage/fileMarks.json''" by (simp add: truthy_def)
  from clear_absent_silent [OF tb, of marked_ab] b
  have 2: "fired (snd (clearMarkCommand (Some (Uri ''/b.txt'')) None marked_ab)) =
       fired marked_ab @ [One (Uri ''/b.txt'')]"
    and 3: "writes (snd (clearMarkCommand (Some (Uri ''/b.txt'')) None marked_ab)) =
       writes marked_ab @
         (case storageFile marked_ab of
            None \<Rightarrow> []
          | Some f \<Rightarrow>
              if truthy f
              then [(f, JSON_stringify (fold (\<lambda>(key, v) d. obj_assign d key v)
                          (Map_delete (fileMarks marked_ab) (fsPath (Uri ''/b.txt''))) []))]
              else [])"
    by blast+
  have 4: "writes (snd (clearMarkCommand (Some (Uri ''/b.txt'')) None marked_ab)) =
       writes marked_ab @
         [(''/storage/fileMarks.json'',
           JsonObject [(''/a.txt'', \<lparr>type = READ, note = ''looks good'', timestamp = 2000\<rparr>)])]"
    unfolding 3 s j using n by simp
  from tc c 1 tb b 2 4 show ?thesis by blast
qed

end
